theory Spec2Isabelle
  imports Complex_Main "HOL-Library.List_Lexorder" "HOL-Library.Char_ord"
begin

section \<open>Data model\<close>

text \<open>
  JavaScript numbers are only stored and handed back by the code modelled here, never
  computed with, so they are modelled as reals.
\<close>

type_synonym number = real

text \<open>The typedefs \<open>ModifierObject\<close>, \<open>BlueprintObject\<close> and \<open>ModuleObject\<close> of Module.js.\<close>

record modifier_object =
  Label :: string
  Value :: number

record blueprint_object =
  Engineer :: string
  BlueprintName :: string
  Level :: int
  Quality :: number
  Modifiers :: "modifier_object list"

record module_object =
  Slot :: string
  On :: bool
  Item :: string
  Priority :: int
  Engineering :: "blueprint_object option"

text \<open>
  Objects with an identity live in a store and are named by their address. A Module
  entity holds the address of its wrapped record (\<open>this._object\<close>) and the address of
  its owning Ship (\<open>this._ship\<close>, \<open>None\<close> for \<open>null\<close>). A wrapped record is a tree (it comes
  from \<open>cloneDeep\<close> of decoded JSON), so one address stands for the record with everything
  below it.
\<close>

type_synonym ref = nat

record module =
  m_object :: ref
  m_ship :: "ref option"

text \<open>
  The typedef \<open>ShipObject\<close> of Ship.js. Its field \<open>Modules\<close> holds raw module records in
  a build given to the constructor, and Module entities in the record a Ship wraps;
  \<open>Ship.toJSON\<close> stores an array of raw records there for a moment.
\<close>

record 'm ship_object =
  Ship :: string
  ShipName :: string
  ShipIdent :: string
  Modules :: 'm

datatype modules_val = Entities "ref list" | Objects "ref list"

record distributor_setting =
  base :: number
  mc :: number

record distributor_state =
  Sys :: distributor_setting
  Eng :: distributor_setting
  Wep :: distributor_setting

record state_object =
  PowerDistributor :: distributor_state
  Cargo :: number
  Fuel :: number

record ship =
  s_object :: "modules_val ship_object"
  state :: state_object

record heap =
  objs :: "ref \<Rightarrow> module_object"
  modules :: "ref \<Rightarrow> module"
  ships :: "ref \<Rightarrow> ship"
  fresh :: ref
  untyped :: "ref \<Rightarrow> bool"

text \<open>
  \<open>fresh\<close> is the next free address. \<open>untyped\<close> marks the records that \<open>update\<close> has
  overlaid with a key that lodash reads as a property path: such a record may hold
  values that no longer fit the typedef \<open>ModuleObject\<close> (a partial Blueprint, an object
  in place of a string), and the model does not follow its contents.
\<close>

text \<open>
  The errors of errors.js that the code throws, and the \<open>TypeError\<close> the JavaScript
  runtime throws when a method that does not exist is called or a property of
  \<open>undefined\<close> is read or written.
\<close>

datatype error = ImportExportError | IllegalStateError | TypeError

text \<open>
  A regular expression is used only through \<open>s.match(re)\<close>: it is modelled by the set of
  strings it matches somewhere, as a predicate. A slot descriptor is a string, a
  regular expression or an array of descriptors; a module-like is a compressed string,
  a Module entity or a raw module record.
\<close>

type_synonym regexp = "string \<Rightarrow> bool"

datatype slot = SlotString string | SlotRegExp regexp | SlotArray "slot list"

datatype module_like = MString string | MModule ref | MObject module_object

datatype ship_like = SString string | SObject "module_object list ship_object"

text \<open>
  The functions and constants the two classes import from modules that are not part of
  the sources (validation, compression, data, data/items, data/slots): parameters of
  the model.
\<close>

record ext =
  decompress :: "string \<Rightarrow> module_object"
  decompressShip :: "string \<Rightarrow> module_object list ship_object"
  validateModuleJson :: "module_object \<Rightarrow> bool"
  validateShipJson :: "module_object list ship_object \<Rightarrow> bool"
  getModuleProperty :: "string \<Rightarrow> string \<Rightarrow> number option"
  itemFitsSlot :: "string \<Rightarrow> string \<Rightarrow> string \<Rightarrow> bool"
  REG_INTERNAL_SLOT :: regexp
  REG_MILITARY_SLOT :: regexp

section \<open>Module\<close>

text \<open>\<open>this._object\<close> of a Module entity.\<close>

definition this_object :: "heap \<Rightarrow> ref \<Rightarrow> module_object" where
  "this_object h this = objs h (m_object (modules h this))"

text \<open>
  lodash's \<open>cloneDeep\<close>: a new object, equal to the given one in every field and sharing
  nothing with it. On a value handed in from outside it is the value; the copy is then
  placed at a fresh address.
\<close>

definition cloneDeep :: "'a \<Rightarrow> 'a" where
  "cloneDeep x = x"

definition new_object :: "module_object \<Rightarrow> heap \<Rightarrow> ref \<times> heap" where
  "new_object ob h = (fresh h, h\<lparr>objs := (objs h)(fresh h := ob), fresh := Suc (fresh h)\<rparr>)"

definition new_module :: "module \<Rightarrow> heap \<Rightarrow> ref \<times> heap" where
  "new_module m h = (fresh h, h\<lparr>modules := (modules h)(fresh h := m), fresh := Suc (fresh h)\<rparr>)"

definition Module_toJSON :: "ref \<Rightarrow> heap \<Rightarrow> ref \<times> heap" where
  "Module_toJSON this h = new_object (cloneDeep (this_object h this)) h"

text \<open>
  The \<open>else\<close> branch of \<open>cloneModuleToJSON\<close> after decompression: clone, then validate the
  clone.
\<close>

definition validated_clone :: "ext \<Rightarrow> module_object \<Rightarrow> heap \<Rightarrow> (error + ref) \<times> heap" where
  "validated_clone E ob h =
     (case new_object (cloneDeep ob) h of
        (a, h') \<Rightarrow>
          if \<not> validateModuleJson E (objs h' a) then (Inl ImportExportError, h')
          else (Inr a, h'))"

definition cloneModuleToJSON :: "ext \<Rightarrow> module_like \<Rightarrow> heap \<Rightarrow> (error + ref) \<times> heap" where
  "cloneModuleToJSON E module' h =
     (case module' of
        MModule m \<Rightarrow> (case Module_toJSON m h of (a, h') \<Rightarrow> (Inr a, h'))
      | MString s \<Rightarrow> validated_clone E (decompress E s) h
      | MObject ob \<Rightarrow> validated_clone E ob h)"

text \<open>
  \<open>!buildFrom\<close>: a missing argument and the empty string are falsy, every object and
  every other string is truthy.
\<close>

definition falsy :: "module_like option \<Rightarrow> bool" where
  "falsy buildFrom =
     (case buildFrom of
        None \<Rightarrow> True
      | Some (MString s) \<Rightarrow> s = []
      | Some _ \<Rightarrow> False)"

text \<open>
  The constructor. With a falsy \<open>buildFrom\<close> it calls \<open>this.clear()\<close>; the class Module
  declares no method \<open>clear\<close> (and extends nothing), so the call throws a TypeError.
\<close>

definition Module_new :: "ext \<Rightarrow> module_like option \<Rightarrow> ref option \<Rightarrow> heap \<Rightarrow> (error + ref) \<times> heap" where
  "Module_new E buildFrom ship h =
     (case buildFrom of
        None \<Rightarrow> (Inl TypeError, h)
      | Some b \<Rightarrow>
          if falsy buildFrom then (Inl TypeError, h)
          else
            (case cloneModuleToJSON E b h of
               (Inl e, h') \<Rightarrow> (Inl e, h')
             | (Inr a, h') \<Rightarrow>
                 (case new_module \<lparr>m_object = a, m_ship = ship\<rparr> h' of
                    (this, h'') \<Rightarrow> (Inr this, h''))))"

text \<open>
  lodash's \<open>pick(old, keep)\<close> reads a key without a dot and without a bracket as the
  name of a property: the picked object holds those properties of \<open>old\<close> that such keys
  name and \<open>old\<close> has, and \<open>assign\<close> writes them over the target's. A key with a dot or
  a bracket can be read as a path into \<open>old\<close> (\<open>Engineering.Level\<close>); what \<open>assign\<close> then
  writes is a partial object, outside the typedef, which \<open>pick\<close> below leaves out and
  \<open>update\<close> records in \<open>untyped\<close>.
\<close>

definition plain_key :: "string \<Rightarrow> bool" where
  "plain_key k = (CHR ''.'' \<notin> set k \<and> CHR ''['' \<notin> set k)"

datatype field =
  FSlot string | FOn bool | FItem string | FPriority int | FEngineering blueprint_object

fun pick :: "module_object \<Rightarrow> string list \<Rightarrow> field list" where
  "pick old [] = []"
| "pick old (k # ks) =
     (if k = ''Slot'' then [FSlot (Slot old)]
      else if k = ''On'' then [FOn (On old)]
      else if k = ''Item'' then [FItem (Item old)]
      else if k = ''Priority'' then [FPriority (Priority old)]
      else if k = ''Engineering'' then
        (case Engineering old of None \<Rightarrow> [] | Some b \<Rightarrow> [FEngineering b])
      else []) @ pick old ks"

fun assign :: "module_object \<Rightarrow> field list \<Rightarrow> module_object" where
  "assign ob [] = ob"
| "assign ob (FSlot s # fs) = assign (ob\<lparr>Slot := s\<rparr>) fs"
| "assign ob (FOn b # fs) = assign (ob\<lparr>On := b\<rparr>) fs"
| "assign ob (FItem i # fs) = assign (ob\<lparr>Item := i\<rparr>) fs"
| "assign ob (FPriority p # fs) = assign (ob\<lparr>Priority := p\<rparr>) fs"
| "assign ob (FEngineering e # fs) = assign (ob\<lparr>Engineering := Some e\<rparr>) fs"

text \<open>
  \<open>update(buildFrom, keep)\<close>; \<open>keep\<close> is \<open>None\<close> when the argument is left out. The new
  record is marked in \<open>untyped\<close> when some key of \<open>keep\<close> is not a plain property name.
\<close>

definition Module_update ::
    "ext \<Rightarrow> ref \<Rightarrow> module_like \<Rightarrow> string list option \<Rightarrow> heap \<Rightarrow> (error + unit) \<times> heap" where
  "Module_update E this buildFrom keep h =
     (let old = m_object (modules h this) in
      case cloneModuleToJSON E buildFrom h of
        (Inl e, h1) \<Rightarrow> (Inl e, h1)
      | (Inr a, h1) \<Rightarrow>
          (let h2 = h1\<lparr>modules := (modules h1)(this := (modules h1 this)\<lparr>m_object := a\<rparr>)\<rparr> in
           case keep of
             None \<Rightarrow> (Inr (), h2)
           | Some ks \<Rightarrow>
               (Inr (),
                h2\<lparr>objs := (objs h2)(a := assign (objs h2 a) (pick (objs h2 old) ks)),
                   untyped := (untyped h2)(a := \<not> list_all plain_key ks)\<rparr>)))"

text \<open>
  \<open>_findModifier\<close> returns what \<open>Array.prototype.find\<close> returns: the first Modifier
  object with the label, or \<open>undefined\<close>.
\<close>

definition findModifier :: "heap \<Rightarrow> ref \<Rightarrow> string \<Rightarrow> modifier_object option" where
  "findModifier h this property =
     (case Engineering (this_object h this) of
        None \<Rightarrow> None
      | Some e \<Rightarrow> find (\<lambda>modifier. Label modifier = property) (Modifiers e))"

text \<open>
  \<open>Object.prototype.toString\<close>, which every plain object and every instance of a class
  that defines no \<open>toString\<close> of its own inherits.
\<close>

definition objectToString :: "'a \<Rightarrow> string" where
  "objectToString ob = ''[object Object]''"

text \<open>
  \<open>xs[key]\<close> on an array. The key of a property access is a string; it names the element
  \<open>i\<close> when it is the canonical decimal numeral of \<open>i\<close> and \<open>i\<close> is below the length, and
  otherwise the access gives \<open>undefined\<close> (the arrays here come from JSON and carry no
  other properties that the code asks for).
\<close>

definition is_digit :: "char \<Rightarrow> bool" where
  "is_digit c = (c \<in> set ''0123456789'')"

definition array_index :: "string \<Rightarrow> nat option" where
  "array_index key =
     (if key \<noteq> [] \<and> list_all is_digit key \<and> (key = ''0'' \<or> hd key \<noteq> CHR ''0'')
      then Some (foldl (\<lambda>n c. 10 * n + (of_char c - 48)) 0 key)
      else None)"

definition array_get :: "'a list \<Rightarrow> string \<Rightarrow> 'a option" where
  "array_get xs key =
     (case array_index key of
        None \<Rightarrow> None
      | Some i \<Rightarrow> if i < length xs then Some (xs ! i) else None)"

text \<open>
  \<open>get(property, modified)\<close>. The value \<open>modifierIndex\<close> is the Modifier object that
  \<open>_findModifier\<close> found, and it is used as the key into \<open>Modifiers\<close>, so as the string
  \<open>objectToString\<close> gives. Reading \<open>.value\<close> of \<open>undefined\<close> throws a TypeError; a Modifier
  object has no property \<open>value\<close> (its fields are \<open>Label\<close> and \<open>Value\<close>), so on one the read
  gives \<open>undefined\<close>.
\<close>

definition Module_get :: "ext \<Rightarrow> heap \<Rightarrow> ref \<Rightarrow> string \<Rightarrow> bool \<Rightarrow> error + number option" where
  "Module_get E h this property modified =
     (case findModifier h this property of
        Some modifierIndex \<Rightarrow>
          if modified then
            (case Engineering (this_object h this) of
               None \<Rightarrow> Inl TypeError
             | Some e \<Rightarrow>
                 (case array_get (Modifiers e) (objectToString modifierIndex) of
                    None \<Rightarrow> Inl TypeError
                  | Some modifier \<Rightarrow> Inr None))
          else Inr (getModuleProperty E (Item (this_object h this)) property)
      | None \<Rightarrow> Inr (getModuleProperty E (Item (this_object h this)) property))"

text \<open>
  \<open>set(property, value)\<close>. Writing \<open>.Value\<close> of \<open>undefined\<close> throws a TypeError.
\<close>

definition Module_set :: "ref \<Rightarrow> string \<Rightarrow> number \<Rightarrow> heap \<Rightarrow> (error + bool) \<times> heap" where
  "Module_set this property v h =
     (case Engineering (this_object h this) of
        None \<Rightarrow> (Inl IllegalStateError, h)
      | Some e \<Rightarrow>
          (case findModifier h this property of
             Some modifierIndex \<Rightarrow>
               (case array_index (objectToString modifierIndex) of
                  None \<Rightarrow> (Inl TypeError, h)
                | Some i \<Rightarrow>
                    if i < length (Modifiers e) then
                      (Inr True,
                       h\<lparr>objs := (objs h)(m_object (modules h this) :=
                            (this_object h this)\<lparr>Engineering :=
                               Some (e\<lparr>Modifiers :=
                                 (Modifiers e)[i := (Modifiers e ! i)\<lparr>Value := v\<rparr>]\<rparr>)\<rparr>)\<rparr>)
                    else (Inl TypeError, h))
           | None \<Rightarrow>
               (Inr True,
                h\<lparr>objs := (objs h)(m_object (modules h this) :=
                     (this_object h this)\<lparr>Engineering :=
                        Some (e\<lparr>Modifiers := Modifiers e @ [\<lparr>Label = property, Value = v\<rparr>]\<rparr>)\<rparr>)\<rparr>)))"

text \<open>
  \<open>isOnSlot(slot)\<close>. The loop over an array returns at the first element whose own
  \<open>isOnSlot\<close> is truthy (\<open>null\<close> and \<open>false\<close> are not).
\<close>

fun Module_isOnSlot :: "heap \<Rightarrow> ref \<Rightarrow> slot \<Rightarrow> bool option"
  and isOnSlot_for :: "heap \<Rightarrow> ref \<Rightarrow> slot list \<Rightarrow> bool" where
  "Module_isOnSlot h this (SlotString s) =
     (if Slot (this_object h this) \<noteq> [] then Some (Slot (this_object h this) = s) else None)"
| "Module_isOnSlot h this (SlotRegExp re) =
     (if Slot (this_object h this) \<noteq> [] then Some (re (Slot (this_object h this))) else None)"
| "Module_isOnSlot h this (SlotArray ss) =
     (if Slot (this_object h this) \<noteq> [] then Some (isOnSlot_for h this ss) else None)"
| "isOnSlot_for h this [] = False"
| "isOnSlot_for h this (s # ss) =
     (if Module_isOnSlot h this s = Some True then True else isOnSlot_for h this ss)"

text \<open>\<open>setSlot(slot)\<close>.\<close>

definition Module_setSlot :: "ext \<Rightarrow> ref \<Rightarrow> string \<Rightarrow> heap \<Rightarrow> (error + unit) \<times> heap" where
  "Module_setSlot E this slot h =
     (case m_ship (modules h this) of
        None \<Rightarrow> (Inl IllegalStateError, h)
      | Some ship \<Rightarrow>
          if Slot (this_object h this) \<noteq> [] then (Inl IllegalStateError, h)
          else if Item (this_object h this) = []
                  \<or> itemFitsSlot E (Item (this_object h this)) (Ship (s_object (ships h ship))) slot
          then (Inr (), h\<lparr>objs := (objs h)(m_object (modules h this) :=
                               (this_object h this)\<lparr>Slot := slot\<rparr>)\<rparr>)
          else (Inr (), h))"

definition Module_isEmpty :: "heap \<Rightarrow> ref \<Rightarrow> bool" where
  "Module_isEmpty h this = (Item (this_object h this) = [])"

section \<open>Ship\<close>

definition default_state :: state_object where
  "default_state =
     \<lparr>PowerDistributor =
        \<lparr>Sys = \<lparr>base = 2, mc = 0\<rparr>, Eng = \<lparr>base = 2, mc = 0\<rparr>, Wep = \<lparr>base = 2, mc = 0\<rparr>\<rparr>,
      Cargo = 0, Fuel = 1\<rparr>"

text \<open>\<open>map(this._object.Modules, moduleObject => new Module(moduleObject, this))\<close>.\<close>

fun map_new_Module :: "ext \<Rightarrow> module_object list \<Rightarrow> ref \<Rightarrow> heap \<Rightarrow> (error + ref list) \<times> heap" where
  "map_new_Module E [] this h = (Inr [], h)"
| "map_new_Module E (moduleObject # rest) this h =
     (case Module_new E (Some (MObject moduleObject)) (Some this) h of
        (Inl e, h1) \<Rightarrow> (Inl e, h1)
      | (Inr m, h1) \<Rightarrow>
          (case map_new_Module E rest this h1 of
             (Inl e, h2) \<Rightarrow> (Inl e, h2)
           | (Inr ms, h2) \<Rightarrow> (Inr (m # ms), h2)))"

text \<open>
  The constructor. The address of the new Ship is taken first, since every Module is
  given it; the Ship's fields are stored once the Modules are built (no Module
  constructor reads them).
\<close>

definition Ship_new :: "ext \<Rightarrow> ship_like \<Rightarrow> heap \<Rightarrow> (error + ref) \<times> heap" where
  "Ship_new E buildFrom h =
     (let this = fresh h;
          h0 = h\<lparr>fresh := Suc (fresh h)\<rparr>;
          buildFrom' = (case buildFrom of SString s \<Rightarrow> decompressShip E s | SObject x \<Rightarrow> x)
      in
        if \<not> validateShipJson E buildFrom' then (Inl ImportExportError, h0)
        else
          (let ob = cloneDeep buildFrom' in
           case map_new_Module E (Modules ob) this h0 of
             (Inl e, h1) \<Rightarrow> (Inl e, h1)
           | (Inr ms, h1) \<Rightarrow>
               (Inr this,
                h1\<lparr>ships := (ships h1)(this :=
                     \<lparr>s_object = \<lparr>Ship = Ship ob, ShipName = ShipName ob,
                                   ShipIdent = ShipIdent ob, Modules = Entities ms\<rparr>,
                      state = default_state\<rparr>)\<rparr>)))"

text \<open>
  lodash's \<open>uniq\<close> keeps the first occurrence of every element, compared by identity.
\<close>

fun uniq :: "'a list \<Rightarrow> 'a list" where
  "uniq [] = []"
| "uniq (x # xs) = x # uniq (filter (\<lambda>y. y \<noteq> x) xs)"

text \<open>
  lodash's \<open>sortBy\<close> is a stable sort that orders the elements by comparing their
  criteria with \<open><\<close> and \<open>>\<close>. Called without an iteratee, as \<open>getModules\<close> calls it,
  the criterion of an element is the element itself, here a Module entity. JavaScript
  compares two objects by their primitive values; Module defines neither \<open>valueOf\<close> nor
  \<open>toString\<close>, so that value is the string \<open>objectToString\<close> gives.
\<close>

definition sortBy :: "('a \<Rightarrow> 'k::linorder) \<Rightarrow> 'a list \<Rightarrow> 'a list" where
  "sortBy iteratee xs = sort_key iteratee xs"

text \<open>
  \<open>getModules(slots, type, includeEmpty, sort)\<close>. The filters keep the elements whose
  predicate is truthy. Were \<open>Modules\<close> an array of raw records, the first call of
  \<open>module.isOnSlot\<close> would throw.
\<close>

definition Ship_getModules ::
    "heap \<Rightarrow> ref \<Rightarrow> slot \<Rightarrow> regexp option \<Rightarrow> bool \<Rightarrow> bool \<Rightarrow> error + ref list" where
  "Ship_getModules h this slots type' includeEmpty sort' =
     (case Modules (s_object (ships h this)) of
        Objects [] \<Rightarrow> Inr []
      | Objects (x # xs) \<Rightarrow> Inl TypeError
      | Entities all \<Rightarrow>
          (let ms = filter (\<lambda>module'. Module_isOnSlot h module' slots = Some True) all;
               ms = (case type' of
                       Some t \<Rightarrow> filter (\<lambda>m. t (Item (this_object h m))) ms
                     | None \<Rightarrow> ms);
               ms = (if \<not> includeEmpty then filter (\<lambda>m. \<not> Module_isEmpty h m) ms else ms);
               ms = (if sort' then sortBy objectToString ms else ms)
           in Inr (uniq ms)))"

definition Ship_getInternals ::
    "ext \<Rightarrow> heap \<Rightarrow> ref \<Rightarrow> regexp option \<Rightarrow> bool \<Rightarrow> error + ref list" where
  "Ship_getInternals E h this type' includeEmpty =
     (case Ship_getModules h this (SlotRegExp (REG_INTERNAL_SLOT E)) type' includeEmpty True of
        Inl e \<Rightarrow> Inl e
      | Inr ms \<Rightarrow>
          (case Ship_getModules h this (SlotRegExp (REG_MILITARY_SLOT E)) type' includeEmpty True of
             Inl e \<Rightarrow> Inl e
           | Inr militaryMs \<Rightarrow> Inr (ms @ militaryMs)))"

text \<open>
  The helper \<open>sortModules\<close> at the head of Ship.js, which no method calls.
\<close>

definition sortModules :: "heap \<Rightarrow> ref list \<Rightarrow> ref list" where
  "sortModules h ms = sortBy (\<lambda>m. Slot (this_object h m)) ms"

text \<open>
  \<open>setCoreModules(modules)\<close> maps every element to \<open>this.setCoreModules([module])\<close>, a
  call of itself. The first argument of the model bounds the depth of calls; \<open>None\<close>
  says that the call did not return within it. The results nest arrays without bound,
  so they are values of a type of their own.
\<close>

datatype jsval = JBool bool | JArray "jsval list"

fun Ship_setCoreModules :: "nat \<Rightarrow> ref \<Rightarrow> module_like list \<Rightarrow> jsval option" where
  "Ship_setCoreModules 0 this modules' = None"
| "Ship_setCoreModules (Suc fuel) this modules' =
     map_option JArray
       (those (map (\<lambda>module'. Ship_setCoreModules fuel this [module']) modules'))"

text \<open>\<open>map(_modules, m => m.toJSON())\<close>, on Module entities and on raw records.\<close>

fun map_toJSON :: "ref list \<Rightarrow> heap \<Rightarrow> ref list \<times> heap" where
  "map_toJSON [] h = ([], h)"
| "map_toJSON (m # ms) h =
     (case Module_toJSON m h of
        (a, h1) \<Rightarrow> (case map_toJSON ms h1 of (as, h2) \<Rightarrow> (a # as, h2)))"

definition map_toJSON_val :: "modules_val \<Rightarrow> heap \<Rightarrow> (error + ref list) \<times> heap" where
  "map_toJSON_val v h =
     (case v of
        Entities ms \<Rightarrow> (case map_toJSON ms h of (as, h1) \<Rightarrow> (Inr as, h1))
      | Objects [] \<Rightarrow> (Inr [], h)
      | Objects (x # xs) \<Rightarrow> (Inl TypeError, h))"

text \<open>lodash's \<open>clone\<close>: a new object with the same fields (a shallow copy).\<close>

definition clone :: "'a \<Rightarrow> 'a" where
  "clone x = x"

definition set_Modules :: "ref \<Rightarrow> modules_val \<Rightarrow> heap \<Rightarrow> heap" where
  "set_Modules this v h =
     h\<lparr>ships := (ships h)(this := (ships h this)\<lparr>s_object := (s_object (ships h this))\<lparr>Modules := v\<rparr>\<rparr>)\<rparr>"

text \<open>
  \<open>toJSON()\<close>: keep the Module entities aside, store their raw records in their place,
  clone the wrapped record, put the entities back.
\<close>

definition Ship_toJSON :: "ref \<Rightarrow> heap \<Rightarrow> (error + modules_val ship_object) \<times> heap" where
  "Ship_toJSON this h =
     (let modules' = Modules (s_object (ships h this)) in
      case map_toJSON_val modules' h of
        (Inl e, h1) \<Rightarrow> (Inl e, h1)
      | (Inr as, h1) \<Rightarrow>
          (let h2 = set_Modules this (Objects as) h1;
               r = clone (s_object (ships h2 this));
               h3 = set_Modules this modules' h2
           in (Inr r, h3)))"

text \<open>
  The raw record a returned build stands for: the raw module records at the addresses
  in its \<open>Modules\<close>.
\<close>

definition resolve :: "heap \<Rightarrow> modules_val ship_object \<Rightarrow> module_object list ship_object option" where
  "resolve h r =
     (case Modules r of
        Objects as \<Rightarrow>
          Some \<lparr>Ship = Ship r, ShipName = ShipName r, ShipIdent = ShipIdent r,
                Modules = map (objs h) as\<rparr>
      | Entities ms \<Rightarrow> None)"

section \<open>The specification's slot matching\<close>

text \<open>
  The matcher as the specification words it, over the tagged descriptors: an exact
  string matches by equality, a pattern by a partial match of the slot name, a list if
  any of its elements matches.
\<close>

fun slot_matches :: "string \<Rightarrow> slot \<Rightarrow> bool" where
  "slot_matches name (SlotString s) = (name = s)"
| "slot_matches name (SlotRegExp re) = re name"
| "slot_matches name (SlotArray ds) = list_ex (slot_matches name) ds"

section \<open>A build to run the code on\<close>

text \<open>
  Stand-ins for the imported functions: every build and every record validates, an
  item fits the slot \<open>Slot03_Size4\<close> only, internal slots are the names that start with
  \<open>Slot\<close> and military slots those that start with \<open>Military\<close>.
\<close>

definition empty_object :: module_object where
  "empty_object = \<lparr>Slot = [], On = False, Item = [], Priority = 0, Engineering = None\<rparr>"

definition E0 :: ext where
  "E0 =
     \<lparr>decompress = (\<lambda>code. empty_object),
      decompressShip = (\<lambda>code. \<lparr>Ship = [], ShipName = [], ShipIdent = [], Modules = []\<rparr>),
      validateModuleJson = (\<lambda>ob. True),
      validateShipJson = (\<lambda>x. True),
      getModuleProperty = (\<lambda>item property. None),
      itemFitsSlot = (\<lambda>item shipType slot. slot = ''Slot03_Size4''),
      REG_INTERNAL_SLOT = (\<lambda>s. take 4 s = ''Slot''),
      REG_MILITARY_SLOT = (\<lambda>s. take 8 s = ''Military'')\<rparr>"

text \<open>The store before anything is built.\<close>

definition heap0 :: heap where
  "heap0 =
     \<lparr>objs = (\<lambda>a. empty_object),
      modules = (\<lambda>a. \<lparr>m_object = 0, m_ship = None\<rparr>),
      ships = (\<lambda>a. \<lparr>s_object = \<lparr>Ship = [], ShipName = [], ShipIdent = [], Modules = Entities []\<rparr>,
                     state = default_state\<rparr>),
      fresh = 0,
      untyped = (\<lambda>a. False)\<rparr>"

definition cargo_rack :: module_object where
  "cargo_rack =
     \<lparr>Slot = ''Slot04_Size3'', On = True, Item = ''Int_CargoRack_Size3_Class1'', Priority = 1,
      Engineering = None\<rparr>"

definition shield_generator :: module_object where
  "shield_generator =
     \<lparr>Slot = ''Slot01_Size4'', On = True, Item = ''Int_ShieldGenerator_Size4_Class2'',
      Priority = 1,
      Engineering =
        Some \<lparr>Engineer = ''Lei Cheung'', BlueprintName = ''ShieldGenerator_Reinforced'',
              Level = 1, Quality = 1, Modifiers = [\<lparr>Label = ''Integrity'', Value = 2\<rparr>]\<rparr>\<rparr>"

definition hull_reinforcement :: module_object where
  "hull_reinforcement =
     \<lparr>Slot = ''Military01'', On = True, Item = ''Int_HullReinforcement_Size4_Class2'',
      Priority = 1, Engineering = None\<rparr>"

definition fuel_scoop :: module_object where
  "fuel_scoop =
     \<lparr>Slot = [], On = True, Item = ''Int_FuelScoop_Size4_Class5'', Priority = 1,
      Engineering = None\<rparr>"

definition build0 :: "module_object list ship_object" where
  "build0 =
     \<lparr>Ship = ''Anaconda'', ShipName = ''Normandy'', ShipIdent = ''SR-1'',
      Modules = [cargo_rack, shield_generator, hull_reinforcement, fuel_scoop]\<rparr>"

text \<open>
  A second build, with an empty placeholder on \<open>Slot05_Size2\<close>, and a module validator
  that rejects a record without an \<open>Item\<close>; the ship validator is the one of \<open>E0\<close>.
\<close>

definition empty_slot :: module_object where
  "empty_slot =
     \<lparr>Slot = ''Slot05_Size2'', On = False, Item = [], Priority = 0, Engineering = None\<rparr>"

definition build1 :: "module_object list ship_object" where
  "build1 =
     \<lparr>Ship = ''Anaconda'', ShipName = ''Normandy'', ShipIdent = ''SR-1'',
      Modules = [cargo_rack, empty_slot]\<rparr>"

definition E1 :: ext where
  "E1 = E0\<lparr>validateModuleJson := (\<lambda>ob. Item ob \<noteq> [])\<rparr>"

text \<open>
  The store after \<open>new Ship(build0)\<close>: the Ship is at address 0, its Modules at 2, 4, 6
  and 8, their records at 1, 3, 5 and 7. In \<open>heap2\<close> a Module that belongs to no Ship has
  been built from the fuel scoop's record as well, at address 10.
\<close>

definition heap1 :: heap where
  "heap1 = snd (Ship_new E0 (SObject build0) heap0)"

definition heap2 :: heap where
  "heap2 = snd (Module_new E0 (Some (MObject fuel_scoop)) None heap1)"

section \<open>Allocation\<close>

text \<open>
  A Module built from a raw record that validates: the copy of the record is placed at
  the next free address, the entity after it.
\<close>

lemma Module_new_MObject:
  "validateModuleJson E ob \<Longrightarrow>
   Module_new E (Some (MObject ob)) ship h =
     (Inr (Suc (fresh h)),
      h\<lparr>objs := (objs h)(fresh h := ob),
        modules := (modules h)(Suc (fresh h) := \<lparr>m_object = fresh h, m_ship = ship\<rparr>),
        fresh := Suc (Suc (fresh h))\<rparr>)"
  by (simp add: Module_new_def falsy_def cloneModuleToJSON_def validated_clone_def
      new_object_def new_module_def cloneDeep_def)

text \<open>
  Building the Modules of a Ship from records that all validate: every Module wraps a
  copy of its record, points back to the Ship, and nothing that was allocated before is
  touched.
\<close>

lemma map_new_Module_valid:
  "list_all (validateModuleJson E) xs \<Longrightarrow>
   \<exists>ms h1. map_new_Module E xs this h = (Inr ms, h1)
     \<and> fresh h \<le> fresh h1 \<and> ships h1 = ships h
     \<and> (\<forall>a<fresh h. objs h1 a = objs h a \<and> modules h1 a = modules h a)
     \<and> map (this_object h1) ms = xs
     \<and> (\<forall>m\<in>set ms. fresh h \<le> m \<and> m < fresh h1 \<and> m_object (modules h1 m) < fresh h1
            \<and> m_ship (modules h1 m) = Some this)"
proof (induction xs arbitrary: h)
  case Nil
  then show ?case by simp
next
  case (Cons ob xs)
  define h' where "h' = h\<lparr>objs := (objs h)(fresh h := ob),
        modules := (modules h)(Suc (fresh h) := \<lparr>m_object = fresh h, m_ship = Some this\<rparr>),
        fresh := Suc (Suc (fresh h))\<rparr>"
  from Cons.prems have v: "validateModuleJson E ob" and vs: "list_all (validateModuleJson E) xs"
    by simp_all
  have new: "Module_new E (Some (MObject ob)) (Some this) h = (Inr (Suc (fresh h)), h')"
    unfolding h'_def by (rule Module_new_MObject [OF v])
  from Cons.IH [OF vs, of h'] obtain ms h1 where
    rest: "map_new_Module E xs this h' = (Inr ms, h1)"
    and le: "fresh h' \<le> fresh h1" and sh: "ships h1 = ships h'"
    and frame: "\<forall>a<fresh h'. objs h1 a = objs h' a \<and> modules h1 a = modules h' a"
    and objs: "map (this_object h1) ms = xs"
    and ms: "\<forall>m\<in>set ms. fresh h' \<le> m \<and> m < fresh h1 \<and> m_object (modules h1 m) < fresh h1
            \<and> m_ship (modules h1 m) = Some this"
    by (elim exE conjE)
  have fh': "fresh h' = Suc (Suc (fresh h))" by (simp add: h'_def)
  have m1: "modules h1 (Suc (fresh h)) = \<lparr>m_object = fresh h, m_ship = Some this\<rparr>"
    using frame fh' by (simp add: h'_def)
  have o1: "objs h1 (fresh h) = ob"
    using frame fh' by (simp add: h'_def)
  have res: "map_new_Module E (ob # xs) this h = (Inr (Suc (fresh h) # ms), h1)"
    by (simp add: new rest)
  have a: "fresh h \<le> fresh h1" using le fh' by simp
  have b: "ships h1 = ships h" using sh by (simp add: h'_def)
  have c: "\<forall>a<fresh h. objs h1 a = objs h a \<and> modules h1 a = modules h a"
    using frame fh' by (simp add: h'_def)
  have d: "map (this_object h1) (Suc (fresh h) # ms) = ob # xs"
    using objs m1 o1 by (simp add: this_object_def)
  have e: "\<forall>m\<in>set (Suc (fresh h) # ms). fresh h \<le> m \<and> m < fresh h1
            \<and> m_object (modules h1 m) < fresh h1 \<and> m_ship (modules h1 m) = Some this"
    using ms m1 le fh' by auto
  show ?case by (intro exI conjI; fact)
qed

text \<open>
  The constructor of Ship on a build that validates and whose module records all
  validate: the new Ship wraps the build's fields and owns one Module per record of
  the build, in the build's order.
\<close>

lemma Ship_new_valid:
  assumes ok: "validateShipJson E x" and vs: "list_all (validateModuleJson E) (Modules x)"
  shows "\<exists>ms h1. Ship_new E (SObject x) h = (Inr (fresh h), h1)
     \<and> s_object (ships h1 (fresh h)) =
         \<lparr>Ship = Ship x, ShipName = ShipName x, ShipIdent = ShipIdent x, Modules = Entities ms\<rparr>
     \<and> state (ships h1 (fresh h)) = default_state
     \<and> map (this_object h1) ms = Modules x
     \<and> fresh h < fresh h1
     \<and> (\<forall>m\<in>set ms. m < fresh h1 \<and> m_object (modules h1 m) < fresh h1
            \<and> m_ship (modules h1 m) = Some (fresh h))"
proof -
  define h0 where "h0 = h\<lparr>fresh := Suc (fresh h)\<rparr>"
  from map_new_Module_valid [OF vs, of "fresh h" h0] obtain ms h1 where
    run: "map_new_Module E (Modules x) (fresh h) h0 = (Inr ms, h1)"
    and le: "fresh h0 \<le> fresh h1"
    and objs: "map (this_object h1) ms = Modules x"
    and ms: "\<forall>m\<in>set ms. fresh h0 \<le> m \<and> m < fresh h1 \<and> m_object (modules h1 m) < fresh h1
            \<and> m_ship (modules h1 m) = Some (fresh h)"
    by (elim exE conjE)
  define hS where "hS = h1\<lparr>ships := (ships h1)(fresh h :=
                     \<lparr>s_object = \<lparr>Ship = Ship x, ShipName = ShipName x,
                                   ShipIdent = ShipIdent x, Modules = Entities ms\<rparr>,
                      state = default_state\<rparr>)\<rparr>"
  have res: "Ship_new E (SObject x) h = (Inr (fresh h), hS)"
    using ok run by (simp add: Ship_new_def Let_def cloneDeep_def h0_def hS_def)
  have a: "s_object (ships hS (fresh h)) =
         \<lparr>Ship = Ship x, ShipName = ShipName x, ShipIdent = ShipIdent x, Modules = Entities ms\<rparr>"
    by (simp add: hS_def)
  have b: "state (ships hS (fresh h)) = default_state" by (simp add: hS_def)
  have "this_object hS = this_object h1"
    by (rule ext) (simp add: hS_def this_object_def)
  then have c: "map (this_object hS) ms = Modules x"
    using objs by simp
  have d: "fresh h < fresh hS" using le by (simp add: hS_def h0_def)
  have e: "\<forall>m\<in>set ms. m < fresh hS \<and> m_object (modules hS m) < fresh hS
            \<and> m_ship (modules hS m) = Some (fresh h)"
    using ms by (simp add: hS_def)
  show ?thesis by (intro exI conjI; fact)
qed

text \<open>
  \<open>toJSON\<close> of a list of Modules: the copies are placed at the next free addresses, one
  after the other; no entity and no record that was allocated before changes.
\<close>

lemma map_toJSON_alloc:
  "\<exists>as h'. map_toJSON ms h = (as, h')
     \<and> fresh h' = fresh h + length ms \<and> modules h' = modules h \<and> ships h' = ships h
     \<and> (\<forall>a<fresh h. objs h' a = objs h a)
     \<and> length as = length ms \<and> distinct as \<and> (\<forall>a\<in>set as. fresh h \<le> a \<and> a < fresh h')
     \<and> ((\<forall>m\<in>set ms. m_object (modules h m) < fresh h) \<longrightarrow>
          map (objs h') as = map (this_object h) ms)"
proof (induction ms arbitrary: h)
  case Nil
  then show ?case by simp
next
  case (Cons m ms)
  define h1 where "h1 = h\<lparr>objs := (objs h)(fresh h := this_object h m), fresh := Suc (fresh h)\<rparr>"
  have tj: "Module_toJSON m h = (fresh h, h1)"
    by (simp add: Module_toJSON_def new_object_def cloneDeep_def h1_def)
  from Cons.IH [of h1] obtain as h' where
    rest: "map_toJSON ms h1 = (as, h')"
    and fr: "fresh h' = fresh h1 + length ms" and mo: "modules h' = modules h1"
    and sh: "ships h' = ships h1" and frame: "\<forall>a<fresh h1. objs h' a = objs h1 a"
    and len: "length as = length ms" and dist: "distinct as"
    and new: "\<forall>a\<in>set as. fresh h1 \<le> a \<and> a < fresh h'"
    and copies: "(\<forall>m\<in>set ms. m_object (modules h1 m) < fresh h1) \<longrightarrow>
          map (objs h') as = map (this_object h1) ms"
    by (elim exE conjE)
  have f1: "fresh h1 = Suc (fresh h)" by (simp add: h1_def)
  have res: "map_toJSON (m # ms) h = (fresh h # as, h')"
    by (simp add: tj rest)
  have a: "fresh h' = fresh h + length (m # ms)" using fr f1 by simp
  have b: "modules h' = modules h" using mo by (simp add: h1_def)
  have c: "ships h' = ships h" using sh by (simp add: h1_def)
  have d: "\<forall>a<fresh h. objs h' a = objs h a" using frame f1 by (simp add: h1_def)
  have l: "length (fresh h # as) = length (m # ms)" using len by simp
  have di: "distinct (fresh h # as)" using dist new f1 by auto
  have n: "\<forall>a\<in>set (fresh h # as). fresh h \<le> a \<and> a < fresh h'" using new f1 a by auto
  have e: "(\<forall>x\<in>set (m # ms). m_object (modules h x) < fresh h) \<longrightarrow>
          map (objs h') (fresh h # as) = map (this_object h) (m # ms)"
  proof
    assume wf: "\<forall>x\<in>set (m # ms). m_object (modules h x) < fresh h"
    then have wf1: "\<forall>x\<in>set ms. m_object (modules h1 x) < fresh h1"
      by (simp add: h1_def less_Suc_eq)
    have same: "map (this_object h1) ms = map (this_object h) ms"
      using wf by (auto simp: this_object_def h1_def)
    have hd: "objs h' (fresh h) = this_object h m"
      using frame f1 by (simp add: h1_def)
    show "map (objs h') (fresh h # as) = map (this_object h) (m # ms)"
      using copies wf1 same hd by simp
  qed
  show ?case by (intro exI conjI; fact)
qed

text \<open>\<open>Ship.toJSON\<close> on a Ship whose \<open>Modules\<close> holds its Module entities.\<close>

lemma Ship_toJSON_Entities:
  assumes ent: "Modules (s_object (ships h this)) = Entities ms"
  shows "\<exists>as h'. Ship_toJSON this h = (Inr ((s_object (ships h this))\<lparr>Modules := Objects as\<rparr>), h')
     \<and> ships h' = ships h \<and> modules h' = modules h \<and> fresh h' = fresh h + length ms
     \<and> (\<forall>a<fresh h. objs h' a = objs h a)
     \<and> length as = length ms \<and> distinct as \<and> (\<forall>a\<in>set as. fresh h \<le> a \<and> a < fresh h')
     \<and> ((\<forall>m\<in>set ms. m_object (modules h m) < fresh h) \<longrightarrow>
          map (objs h') as = map (this_object h) ms)"
proof -
  from map_toJSON_alloc [of ms h] obtain as h1 where
    run: "map_toJSON ms h = (as, h1)"
    and fr: "fresh h1 = fresh h + length ms" and mo: "modules h1 = modules h"
    and sh: "ships h1 = ships h" and frame: "\<forall>a<fresh h. objs h1 a = objs h a"
    and len: "length as = length ms" and dist: "distinct as"
    and new: "\<forall>a\<in>set as. fresh h \<le> a \<and> a < fresh h1"
    and copies: "(\<forall>m\<in>set ms. m_object (modules h m) < fresh h) \<longrightarrow>
          map (objs h1) as = map (this_object h) ms"
    by (elim exE conjE)
  define h3 where "h3 = set_Modules this (Entities ms) (set_Modules this (Objects as) h1)"
  have sh3: "ships h3 = ships h"
    using ent sh by (simp add: h3_def set_Modules_def fun_eq_iff)
  have res: "Ship_toJSON this h = (Inr ((s_object (ships h this))\<lparr>Modules := Objects as\<rparr>), h3)"
    using ent run sh
    by (simp add: Ship_toJSON_def map_toJSON_val_def Let_def clone_def h3_def set_Modules_def)
  have b: "modules h3 = modules h" using mo by (simp add: h3_def set_Modules_def)
  have c: "fresh h3 = fresh h + length ms" using fr by (simp add: h3_def set_Modules_def)
  have o: "objs h3 = objs h1" by (simp add: h3_def set_Modules_def)
  have d: "\<forall>a<fresh h. objs h3 a = objs h a" using frame o by simp
  have n: "\<forall>a\<in>set as. fresh h \<le> a \<and> a < fresh h3" using new c fr by simp
  have e: "(\<forall>m\<in>set ms. m_object (modules h m) < fresh h) \<longrightarrow>
          map (objs h3) as = map (this_object h) ms" using copies o by simp
  show ?thesis by (intro exI conjI; fact)
qed

section \<open>The build, run\<close>

lemma heap1_eq:
  "heap1 =
     \<lparr>objs = (\<lambda>a. empty_object)
        (0 := empty_object, Suc 0 := cargo_rack, 3 := shield_generator,
         5 := hull_reinforcement, 7 := fuel_scoop),
      modules = (\<lambda>a. \<lparr>m_object = 0, m_ship = None\<rparr>)
        (2 := \<lparr>m_object = Suc 0, m_ship = Some 0\<rparr>, 4 := \<lparr>m_object = 3, m_ship = Some 0\<rparr>,
         6 := \<lparr>m_object = 5, m_ship = Some 0\<rparr>, 8 := \<lparr>m_object = 7, m_ship = Some 0\<rparr>),
      ships = (ships heap0)
        (0 := \<lparr>s_object = \<lparr>Ship = ''Anaconda'', ShipName = ''Normandy'', ShipIdent = ''SR-1'',
                            Modules = Entities [2, 4, 6, 8]\<rparr>,
               state = default_state\<rparr>),
      fresh = 9,
      untyped = (\<lambda>a. False)\<rparr>"
  by (simp add: heap1_def Ship_new_def E0_def build0_def heap0_def Let_def
      cloneDeep_def Module_new_def falsy_def cloneModuleToJSON_def validated_clone_def
      new_object_def new_module_def fun_eq_iff)

lemma heap1_fields:
  "fresh heap1 = 9"
  "s_object (ships heap1 0) =
     \<lparr>Ship = ''Anaconda'', ShipName = ''Normandy'', ShipIdent = ''SR-1'',
      Modules = Entities [2, 4, 6, 8]\<rparr>"
  "state (ships heap1 0) = default_state"
  "modules heap1 2 = \<lparr>m_object = Suc 0, m_ship = Some 0\<rparr>"
  "modules heap1 4 = \<lparr>m_object = 3, m_ship = Some 0\<rparr>"
  "modules heap1 6 = \<lparr>m_object = 5, m_ship = Some 0\<rparr>"
  "modules heap1 8 = \<lparr>m_object = 7, m_ship = Some 0\<rparr>"
  "objs heap1 (Suc 0) = cargo_rack"
  "objs heap1 3 = shield_generator"
  "objs heap1 5 = hull_reinforcement"
  "objs heap1 7 = fuel_scoop"
  by (simp_all add: heap1_eq)

lemma this_object_heap1:
  "this_object heap1 2 = cargo_rack"
  "this_object heap1 4 = shield_generator"
  "this_object heap1 6 = hull_reinforcement"
  "this_object heap1 8 = fuel_scoop"
  by (simp_all add: this_object_def heap1_fields)

lemma heap2_fields:
  "modules heap2 10 = \<lparr>m_object = 9, m_ship = None\<rparr>"
  "objs heap2 9 = fuel_scoop"
  by (simp_all add: heap2_def Module_new_def falsy_def cloneModuleToJSON_def validated_clone_def
      new_object_def new_module_def cloneDeep_def E0_def heap1_fields)

section \<open>Module: slots\<close>

lemma isOnSlot_matches:
  "Module_isOnSlot h this d =
     (if Slot (this_object h this) = [] then None
      else Some (slot_matches (Slot (this_object h this)) d))"
  "isOnSlot_for h this ds =
     (Slot (this_object h this) \<noteq> [] \<and> list_ex (slot_matches (Slot (this_object h this))) ds)"
  by (induction h this d and h this ds rule: Module_isOnSlot_isOnSlot_for.induct) auto

text \<open>
  C8. For every Module and every slot descriptor (a string, a pattern or a list of
  descriptors, nested to any depth): \<open>isOnSlot\<close> returns \<open>null\<close> when the Module's \<open>Slot\<close> is
  empty, whatever the descriptor's shape, and otherwise returns \<open>true\<close> exactly when the
  descriptor matches the slot name (a string by equality, a pattern by a partial match,
  a list when one of its elements matches) and \<open>false\<close> when it does not.
\<close>

theorem Module_isOnSlot_tristate:
  "Module_isOnSlot h this d =
     (if Slot (this_object h this) = [] then None
      else Some (slot_matches (Slot (this_object h this)) d))"
  by (rule isOnSlot_matches)

text \<open>
  The specification's example: a Module on \<open>Slot04_Size3\<close> (the cargo rack, at address 2)
  and a Module with no slot (the fuel scoop, at address 8).
\<close>

theorem Module_isOnSlot_tristate_witness:
  "Module_isOnSlot heap1 2 (SlotString ''Slot04_Size3'') = Some True
   \<and> Module_isOnSlot heap1 2 (SlotRegExp (\<lambda>s. take 5 s = ''Slot0'')) = Some True
   \<and> Module_isOnSlot heap1 2 (SlotArray [SlotString ''Armour'', SlotString ''Slot04_Size3''])
       = Some True
   \<and> Module_isOnSlot heap1 2 (SlotString ''Armour'') = Some False
   \<and> Module_isOnSlot heap1 2 (SlotArray [SlotString ''Armour'', SlotArray []]) = Some False
   \<and> Module_isOnSlot heap1 8 (SlotString ''Slot04_Size3'') = None
   \<and> Module_isOnSlot heap1 8 (SlotRegExp (\<lambda>s. take 5 s = ''Slot0'')) = None
   \<and> Module_isOnSlot heap1 8 (SlotArray [SlotString ''Slot04_Size3'']) = None"
  using Module_isOnSlot_tristate [of heap1 2 "SlotString ''Slot04_Size3''"]
    Module_isOnSlot_tristate [of heap1 2 "SlotRegExp (\<lambda>s. take 5 s = ''Slot0'')"]
    Module_isOnSlot_tristate [of heap1 2 "SlotArray [SlotString ''Armour'', SlotString ''Slot04_Size3'']"]
    Module_isOnSlot_tristate [of heap1 2 "SlotString ''Armour''"]
    Module_isOnSlot_tristate [of heap1 2 "SlotArray [SlotString ''Armour'', SlotArray []]"]
    Module_isOnSlot_tristate [of heap1 8 "SlotString ''Slot04_Size3''"]
    Module_isOnSlot_tristate [of heap1 8 "SlotRegExp (\<lambda>s. take 5 s = ''Slot0'')"]
    Module_isOnSlot_tristate [of heap1 8 "SlotArray [SlotString ''Slot04_Size3'']"]
  by (simp add: this_object_heap1 cargo_rack_def fuel_scoop_def)

text \<open>
  C3. Once the \<open>Slot\<close> of a Module is not empty, every call of \<open>setSlot\<close>, with any slot,
  raises an illegal-state error and leaves the store, so the \<open>Slot\<close>, as it was; in
  particular after a \<open>setSlot\<close> that returned and left the \<open>Slot\<close> not empty. \<open>setSlot\<close> also
  raises an illegal-state error whenever the Module has no Ship.
\<close>

theorem Module_setSlot_write_once:
  "(Slot (this_object h this) \<noteq> [] \<longrightarrow>
      Module_setSlot E this s2 h = (Inl IllegalStateError, h))
   \<and> (m_ship (modules h this) = None \<longrightarrow>
      Module_setSlot E this s2 h = (Inl IllegalStateError, h))
   \<and> (Module_setSlot E this s h = (Inr (), h') \<and> Slot (this_object h' this) \<noteq> [] \<longrightarrow>
      Module_setSlot E this s2 h' = (Inl IllegalStateError, h'))"
  by (auto simp: Module_setSlot_def split: option.splits)

text \<open>
  The cargo rack (address 2) has a slot; the Module at address 10 of \<open>heap2\<close> has no Ship;
  the fuel scoop (address 8) has a Ship and no slot, and fits \<open>Slot03_Size4\<close>.
\<close>

theorem Module_setSlot_write_once_witness:
  "Slot (this_object heap1 2) \<noteq> []
   \<and> Module_setSlot E0 2 ''Slot03_Size4'' heap1 = (Inl IllegalStateError, heap1)
   \<and> m_ship (modules heap2 10) = None
   \<and> Module_setSlot E0 10 ''Slot03_Size4'' heap2 = (Inl IllegalStateError, heap2)
   \<and> fst (Module_setSlot E0 8 ''Slot03_Size4'' heap1) = Inr ()
   \<and> Slot (this_object (snd (Module_setSlot E0 8 ''Slot03_Size4'' heap1)) 8) = ''Slot03_Size4''
   \<and> Module_setSlot E0 8 ''Slot05_Size2'' (snd (Module_setSlot E0 8 ''Slot03_Size4'' heap1))
       = (Inl IllegalStateError, snd (Module_setSlot E0 8 ''Slot03_Size4'' heap1))"
proof -
  have first: "Module_setSlot E0 8 ''Slot03_Size4'' heap1
      = (Inr (), heap1\<lparr>objs := (objs heap1)(7 := fuel_scoop\<lparr>Slot := ''Slot03_Size4''\<rparr>)\<rparr>)"
    by (simp add: Module_setSlot_def heap1_fields this_object_heap1 E0_def fuel_scoop_def)
  have slot: "Slot (this_object (heap1\<lparr>objs := (objs heap1)(7 := fuel_scoop\<lparr>Slot := ''Slot03_Size4''\<rparr>)\<rparr>) 8)
      = ''Slot03_Size4''"
    by (simp add: this_object_def heap1_fields)
  show ?thesis
    using Module_setSlot_write_once [of heap1 2 E0 "''Slot03_Size4''"]
      Module_setSlot_write_once [of heap2 10 E0 "''Slot03_Size4''"]
      Module_setSlot_write_once [of heap1 8 E0 "''Slot05_Size2''" "''Slot03_Size4''"
        "heap1\<lparr>objs := (objs heap1)(7 := fuel_scoop\<lparr>Slot := ''Slot03_Size4''\<rparr>)\<rparr>"]
      first slot
    by (simp add: this_object_heap1 heap2_fields cargo_rack_def)
qed

text \<open>
  C7. For a Module with a Ship and an empty \<open>Slot\<close>: \<open>setSlot(s)\<close> returns without an
  error; it assigns \<open>s\<close> when the Module's \<open>Item\<close> is empty or \<open>itemFitsSlot\<close> accepts the
  \<open>Item\<close> for \<open>s\<close> on the Ship's hull, and otherwise (an \<open>Item\<close> that does not fit) it changes
  nothing, so that the \<open>Slot\<close> stays empty.
\<close>

theorem Module_setSlot_fit:
  assumes "m_ship (modules h this) = Some sh" and "Slot (this_object h this) = []"
  shows "Module_setSlot E this s h =
           (Inr (),
            if Item (this_object h this) = []
               \<or> itemFitsSlot E (Item (this_object h this)) (Ship (s_object (ships h sh))) s
            then h\<lparr>objs := (objs h)(m_object (modules h this) := (this_object h this)\<lparr>Slot := s\<rparr>)\<rparr>
            else h)
         \<and> Slot (this_object (snd (Module_setSlot E this s h)) this) =
           (if Item (this_object h this) = []
               \<or> itemFitsSlot E (Item (this_object h this)) (Ship (s_object (ships h sh))) s
            then s else [])"
  using assms by (simp add: Module_setSlot_def this_object_def)

text \<open>
  The fuel scoop (address 8) does not fit \<open>Slot05_Size2\<close>: nothing is raised and nothing
  is assigned. It fits \<open>Slot03_Size4\<close>: the slot is assigned.
\<close>

theorem Module_setSlot_fit_witness:
  "m_ship (modules heap1 8) = Some 0 \<and> Slot (this_object heap1 8) = []
   \<and> Item (this_object heap1 8) \<noteq> []
   \<and> \<not> itemFitsSlot E0 (Item (this_object heap1 8)) (Ship (s_object (ships heap1 0))) ''Slot05_Size2''
   \<and> Module_setSlot E0 8 ''Slot05_Size2'' heap1 = (Inr (), heap1)
   \<and> Slot (this_object (snd (Module_setSlot E0 8 ''Slot05_Size2'' heap1)) 8) = []
   \<and> itemFitsSlot E0 (Item (this_object heap1 8)) (Ship (s_object (ships heap1 0))) ''Slot03_Size4''
   \<and> Slot (this_object (snd (Module_setSlot E0 8 ''Slot03_Size4'' heap1)) 8) = ''Slot03_Size4''"
proof -
  have pre: "m_ship (modules heap1 8) = Some 0" "Slot (this_object heap1 8) = []"
    by (simp_all add: heap1_fields this_object_heap1 fuel_scoop_def)
  have item: "Item (this_object heap1 8) \<noteq> []"
    by (simp add: this_object_heap1 fuel_scoop_def)
  have no: "\<not> itemFitsSlot E0 (Item (this_object heap1 8)) (Ship (s_object (ships heap1 0)))
                ''Slot05_Size2''"
    by (simp add: E0_def)
  have yes: "itemFitsSlot E0 (Item (this_object heap1 8)) (Ship (s_object (ships heap1 0)))
                ''Slot03_Size4''"
    by (simp add: E0_def)
  note skip = Module_setSlot_fit [OF pre, of E0 "''Slot05_Size2''"]
  note fits = Module_setSlot_fit [OF pre, of E0 "''Slot03_Size4''"]
  have skipped: "Module_setSlot E0 8 ''Slot05_Size2'' heap1 = (Inr (), heap1)"
    using skip [THEN conjunct1] item no by simp
  have unassigned: "Slot (this_object (snd (Module_setSlot E0 8 ''Slot05_Size2'' heap1)) 8) = []"
    using skip [THEN conjunct2] item no by simp
  have assigned:
    "Slot (this_object (snd (Module_setSlot E0 8 ''Slot03_Size4'' heap1)) 8) = ''Slot03_Size4''"
    using fits [THEN conjunct2] yes by simp
  show ?thesis
    by (intro conjI; fact)
qed

section \<open>Module: construction\<close>

text \<open>
  C6. Constructing a Module with no build-from input does not complete: the constructor
  calls \<open>this.clear()\<close>, a method the class does not have, and the call throws a
  TypeError. No placeholder record is made.
\<close>

theorem Module_new_without_input:
  "Module_new E None ship h = (Inl TypeError, h)"
  by (simp add: Module_new_def)

lemma Module_new_empty_string:
  "Module_new E (Some (MString [])) ship h = (Inl TypeError, h)"
  by (simp add: Module_new_def falsy_def)

text \<open>
  C9. A Module built from an existing Module \<open>m\<close>, and an \<open>update\<close> from \<open>m\<close>, take the new
  record from \<open>m.toJSON()\<close>: the result is written out below and consults no imported
  function, so it is the same whatever \<open>validateModuleJson\<close> is, and it is never an error.
  Raw records and strings are validated: they raise an Import/Export error exactly
  when \<open>validateModuleJson\<close> rejects the record.
\<close>

theorem Module_from_Module_not_validated:
  "Module_new E (Some (MModule m)) ship h =
     (Inr (Suc (fresh h)),
      h\<lparr>objs := (objs h)(fresh h := this_object h m),
        modules := (modules h)(Suc (fresh h) := \<lparr>m_object = fresh h, m_ship = ship\<rparr>),
        fresh := Suc (Suc (fresh h))\<rparr>)
   \<and> Module_new (E\<lparr>validateModuleJson := v\<rparr>) (Some (MModule m)) ship h =
       Module_new E (Some (MModule m)) ship h
   \<and> fst (Module_update E this (MModule m) keep h) = Inr ()
   \<and> Module_update (E\<lparr>validateModuleJson := v\<rparr>) this (MModule m) keep h =
       Module_update E this (MModule m) keep h
   \<and> this_object (snd (Module_update E this (MModule m) None h)) this = this_object h m
   \<and> fst (Module_new E (Some (MObject ob)) ship h) =
       (if validateModuleJson E ob then Inr (Suc (fresh h)) else Inl ImportExportError)
   \<and> fst (Module_new E (Some (MString (c # cs))) ship h) =
       (if validateModuleJson E (decompress E (c # cs)) then Inr (Suc (fresh h))
        else Inl ImportExportError)"
  by (simp add: Module_new_def Module_update_def falsy_def cloneModuleToJSON_def
      Module_toJSON_def validated_clone_def new_object_def new_module_def cloneDeep_def
      this_object_def Let_def split: option.split)

text \<open>
  An \<open>update\<close> that keeps \<open>Slot\<close> leaves the new record typed; one that keeps the path
  \<open>Engineering.Level\<close> marks it.
\<close>

lemma Module_update_marks_path_keys:
  "\<not> untyped h (fresh h) \<Longrightarrow>
     \<not> untyped (snd (Module_update E this (MModule m) (Some [''Slot'']) h)) (fresh h)"
  "untyped (snd (Module_update E this (MModule m) (Some [''Engineering.Level'']) h)) (fresh h)"
  by (simp_all add: Module_update_def cloneModuleToJSON_def Module_toJSON_def new_object_def
      Let_def plain_key_def)

section \<open>Module: engineering modifiers\<close>

text \<open>
  What \<open>get\<close> and \<open>set\<close> do once a Modifier with the label exists: \<open>_findModifier\<close> hands
  back the Modifier object, the object is used as an index into \<open>Modifiers\<close>, and the
  property of the \<open>undefined\<close> element is read or written.
\<close>

lemma array_index_object: "array_index (objectToString ob) = None"
  by (simp add: array_index_def objectToString_def is_digit_def)

lemma Module_get_found:
  "findModifier h this p = Some modifier \<Longrightarrow> Module_get E h this p True = Inl TypeError"
  by (simp add: Module_get_def array_get_def array_index_object split: option.split)

lemma Module_set_found:
  "findModifier h this p = Some modifier \<Longrightarrow> Module_set this p v h = (Inl TypeError, h)"
  by (auto simp: Module_set_def findModifier_def array_index_object split: option.splits)

lemma Module_get_base:
  "Module_get E h this p False = Inr (getModuleProperty E (Item (this_object h this)) p)"
  by (simp add: Module_get_def split: option.split)

text \<open>
  C2. The shield generator of the build (the Module at address 4) has a Blueprint with
  one Modifier, \<open>Integrity\<close>. \<open>set\<close> of the existing label \<open>Integrity\<close> does not complete: it
  throws a TypeError and overwrites nothing. \<open>set\<close> of the new label \<open>Mass\<close> appends the
  Modifier and returns \<open>true\<close>; \<open>get\<close> of \<open>Mass\<close> with \<open>modified\<close> true then throws a TypeError
  where the claim has it return the value set. With \<open>modified\<close> false it returns the base
  lookup.
\<close>

theorem Module_set_get_TypeError:
  "Engineering (this_object heap1 4) \<noteq> None
   \<and> Module_set 4 ''Integrity'' 3 heap1 = (Inl TypeError, heap1)
   \<and> fst (Module_set 4 ''Mass'' 3 heap1) = Inr True
   \<and> map_option Modifiers (Engineering (this_object (snd (Module_set 4 ''Mass'' 3 heap1)) 4))
       = Some [\<lparr>Label = ''Integrity'', Value = 2\<rparr>, \<lparr>Label = ''Mass'', Value = 3\<rparr>]
   \<and> Module_get E0 (snd (Module_set 4 ''Mass'' 3 heap1)) 4 ''Mass'' True = Inl TypeError
   \<and> Module_get E0 (snd (Module_set 4 ''Mass'' 3 heap1)) 4 ''Mass'' False
       = Inr (getModuleProperty E0 ''Int_ShieldGenerator_Size4_Class2'' ''Mass'')"
  by (simp add: Module_set_def Module_get_def findModifier_def array_get_def array_index_object
      this_object_def heap1_fields shield_generator_def)

section \<open>Ship: module lists\<close>

text \<open>
  Sorting by a criterion that is the same for every element is a stable sort of equal
  keys: it returns the list as it is. This is what \<open>sortBy\<close> without an iteratee does to
  Module entities.
\<close>

lemma sort_key_const: "sort_key (\<lambda>x. c) xs = xs"
proof (induction xs)
  case Nil
  then show ?case by simp
next
  case (Cons x xs)
  then show ?case by (cases xs) simp_all
qed

lemma sortBy_objectToString: "sortBy objectToString ms = ms"
  unfolding sortBy_def objectToString_def by (rule sort_key_const)

lemma getModules_sort_no_effect:
  "Ship_getModules h this slots type' includeEmpty True =
   Ship_getModules h this slots type' includeEmpty False"
  by (simp add: Ship_getModules_def sortBy_objectToString Let_def
      split: modules_val.split list.split)

text \<open>
  With empty slots included and no type given, \<open>getInternals\<close> is the Ship's collection
  filtered twice, each part in the collection's order: the slot names decide which
  Modules are returned, not where they stand.
\<close>

lemma getInternals_order:
  assumes "Modules (s_object (ships h this)) = Entities all"
  shows "Ship_getInternals E h this None True =
     Inr (uniq (filter (\<lambda>m. Module_isOnSlot h m (SlotRegExp (REG_INTERNAL_SLOT E)) = Some True) all)
          @ uniq (filter (\<lambda>m. Module_isOnSlot h m (SlotRegExp (REG_MILITARY_SLOT E)) = Some True) all))"
  using assms
  by (simp add: Ship_getInternals_def Ship_getModules_def Let_def sortBy_objectToString)

text \<open>
  C4. On the Ship of the build, whose record lists the cargo rack on \<open>Slot04_Size3\<close> before
  the shield generator on \<open>Slot01_Size4\<close>, \<open>getInternals\<close> returns the two internal Modules
  in that order, the order of the Ship's collection, which is not ascending by slot
  name; the military Module comes after them. The unused helper \<open>sortModules\<close> would
  have put the shield generator first.
\<close>

theorem getInternals_collection_order:
  "Ship_getInternals E0 heap1 0 None False = Inr [2, 4, 6]
   \<and> map (\<lambda>m. Slot (this_object heap1 m)) [2, 4, 6]
       = [''Slot04_Size3'', ''Slot01_Size4'', ''Military01'']
   \<and> \<not> sorted [''Slot04_Size3'', ''Slot01_Size4'']
   \<and> sortModules heap1 [2, 4] = [4, 2]"
proof -
  have internals: "Ship_getInternals E0 heap1 0 None False = Inr [2, 4, 6]"
    by (simp add: Ship_getInternals_def Ship_getModules_def heap1_fields E0_def Let_def
        this_object_heap1 Module_isEmpty_def sortBy_objectToString
        cargo_rack_def shield_generator_def hull_reinforcement_def fuel_scoop_def)
  have slots: "map (\<lambda>m. Slot (this_object heap1 m)) [2, 4, 6]
       = [''Slot04_Size3'', ''Slot01_Size4'', ''Military01'']"
    by (simp add: this_object_heap1 cargo_rack_def shield_generator_def hull_reinforcement_def)
  have unsorted: "\<not> sorted [''Slot04_Size3'', ''Slot01_Size4'']"
    by simp
  have helper: "sortModules heap1 [2, 4] = [4, 2]"
    by (simp add: sortModules_def sortBy_def this_object_heap1 cargo_rack_def
        shield_generator_def)
  show ?thesis by (intro conjI; fact)
qed

text \<open>
  C5. \<open>setCoreModules\<close> on a list that is not empty never returns: whatever the depth of
  calls allowed, the call for the first element, which is \<open>setCoreModules\<close> again on a list
  of one element, has not returned. (On the empty list it returns the empty array.)
\<close>

theorem setCoreModules_never_returns:
  "Ship_setCoreModules fuel this (m # ms) = None"
  by (induction fuel arbitrary: m ms) auto

lemma setCoreModules_empty:
  "Ship_setCoreModules (Suc fuel) this [] = Some (JArray [])"
  by simp

section \<open>Ship: serialisation\<close>

text \<open>
  C1 as stated, for every build that \<open>validateShipJson\<close> accepts, fails. The
  constructor of Ship asks \<open>validateShipJson\<close> about the build, and then every
  Module constructor asks \<open>validateModuleJson\<close> about its own record and raises an
  Import/Export error when it is rejected. The two are separate imported predicates.
  Here the module validator wants an \<open>Item\<close>, and the build, which the ship validator
  accepts, has an empty placeholder on \<open>Slot05_Size2\<close>: the constructor raises, so there
  is no Ship to serialise.
\<close>

theorem Ship_new_rejects_module:
  "validateShipJson E1 build1
   \<and> Ship_new E1 (SObject build1) heap0 =
       (Inl ImportExportError,
        heap0\<lparr>objs := (objs heap0)(Suc 0 := cargo_rack, 3 := empty_slot),
               modules := (modules heap0)(2 := \<lparr>m_object = Suc 0, m_ship = Some 0\<rparr>),
               fresh := 4\<rparr>)
   \<and> \<not> (\<exists>this h1 r h2.
           Ship_new E1 (SObject build1) heap0 = (Inr this, h1)
           \<and> Ship_toJSON this h1 = (Inr r, h2)
           \<and> resolve h2 r = Some build1)"
proof -
  have ok: "validateShipJson E1 build1"
    by (simp add: E1_def E0_def)
  have run: "Ship_new E1 (SObject build1) heap0 =
       (Inl ImportExportError,
        heap0\<lparr>objs := (objs heap0)(Suc 0 := cargo_rack, 3 := empty_slot),
               modules := (modules heap0)(2 := \<lparr>m_object = Suc 0, m_ship = Some 0\<rparr>),
               fresh := 4\<rparr>)"
    by (simp add: Ship_new_def E1_def E0_def build1_def heap0_def Let_def cloneDeep_def
        Module_new_def falsy_def cloneModuleToJSON_def validated_clone_def new_object_def
        new_module_def cargo_rack_def empty_slot_def fun_eq_iff)
  have none: "\<not> (\<exists>this h1 r h2.
           Ship_new E1 (SObject build1) heap0 = (Inr this, h1)
           \<and> Ship_toJSON this h1 = (Inr r, h2)
           \<and> resolve h2 r = Some build1)"
    by (simp add: run)
  show ?thesis by (intro conjI; fact)
qed

text \<open>
  C1, amended. For every raw ship record \<open>x\<close> that \<open>validateShipJson\<close> accepts and whose
  \<open>Modules\<close> entries \<open>validateModuleJson\<close> accepts, each of them, and in every store: the
  constructor of Ship completes on \<open>x\<close>, \<open>toJSON\<close> of the new Ship completes, and the
  record it returns is \<open>x\<close>, field by field; the entries of its \<open>Modules\<close> are the records
  of the Ship's Module entities, in the entities' order.
\<close>

theorem Ship_toJSON_roundtrip:
  assumes "validateShipJson E x" and "list_all (validateModuleJson E) (Modules x)"
  shows "\<exists>this h1 r h2 ms as.
           Ship_new E (SObject x) h = (Inr this, h1)
           \<and> Ship_toJSON this h1 = (Inr r, h2)
           \<and> resolve h2 r = Some x
           \<and> Modules (s_object (ships h1 this)) = Entities ms
           \<and> Modules r = Objects as
           \<and> map (objs h2) as = map (this_object h1) ms"
proof -
  from Ship_new_valid [OF assms, of h] obtain ms h1 where
    new: "Ship_new E (SObject x) h = (Inr (fresh h), h1)"
    and ob: "s_object (ships h1 (fresh h)) =
         \<lparr>Ship = Ship x, ShipName = ShipName x, ShipIdent = ShipIdent x, Modules = Entities ms\<rparr>"
    and objs: "map (this_object h1) ms = Modules x"
    and ms: "\<forall>m\<in>set ms. m < fresh h1 \<and> m_object (modules h1 m) < fresh h1
            \<and> m_ship (modules h1 m) = Some (fresh h)"
    by (elim exE conjE)
  have ent: "Modules (s_object (ships h1 (fresh h))) = Entities ms" by (simp add: ob)
  from Ship_toJSON_Entities [OF ent] obtain as h2 where
    tj: "Ship_toJSON (fresh h) h1 =
           (Inr ((s_object (ships h1 (fresh h)))\<lparr>Modules := Objects as\<rparr>), h2)"
    and copies: "(\<forall>m\<in>set ms. m_object (modules h1 m) < fresh h1) \<longrightarrow>
          map (objs h2) as = map (this_object h1) ms"
    by (elim exE conjE)
  have same: "map (objs h2) as = map (this_object h1) ms" using copies ms by simp
  have res: "resolve h2 ((s_object (ships h1 (fresh h)))\<lparr>Modules := Objects as\<rparr>) = Some x"
    using same objs by (simp add: resolve_def ob)
  have r: "Modules ((s_object (ships h1 (fresh h)))\<lparr>Modules := Objects as\<rparr>) = Objects as"
    by simp
  show ?thesis by (intro exI conjI; fact)
qed

text \<open>The build of four Modules, with validators that accept it and all its records.\<close>

theorem Ship_toJSON_roundtrip_witness:
  "validateShipJson E0 build0
   \<and> list_all (validateModuleJson E0) (Modules build0)
   \<and> (\<exists>this h1 r h2 ms as.
         Ship_new E0 (SObject build0) heap0 = (Inr this, h1)
         \<and> Ship_toJSON this h1 = (Inr r, h2)
         \<and> resolve h2 r = Some build0
         \<and> Modules (s_object (ships h1 this)) = Entities ms
         \<and> Modules r = Objects as
         \<and> map (objs h2) as = map (this_object h1) ms)"
proof -
  have ok: "validateShipJson E0 build0"
    by (simp add: E0_def)
  have oks: "list_all (validateModuleJson E0) (Modules build0)"
    by (simp add: E0_def build0_def)
  show ?thesis using ok oks Ship_toJSON_roundtrip [OF ok oks, of heap0] by (intro conjI)
qed

text \<open>
  C10. \<open>Ship.toJSON()\<close> leaves every Ship, every Module entity and every record that was
  allocated before the call as they were: the Ship's \<open>Modules\<close> holds the same entities in
  the same order, its other fields and its \<open>state\<close> are unchanged. On a Ship whose
  \<open>Modules\<close> holds entities the call returns the Ship's record with \<open>Modules\<close> replaced by
  newly allocated records, all different; when the entities' own records are allocated
  ones, the returned records are copies of them, entry by entry, and none of them is
  the record of an entity.
\<close>

theorem Ship_toJSON_frame:
  assumes "Ship_toJSON this h = (res, h')"
  shows "ships h' = ships h \<and> modules h' = modules h \<and> (\<forall>a<fresh h. objs h' a = objs h a)
     \<and> (\<forall>ms. Modules (s_object (ships h this)) = Entities ms \<longrightarrow>
          (\<exists>as. res = Inr ((s_object (ships h this))\<lparr>Modules := Objects as\<rparr>)
             \<and> distinct as \<and> (\<forall>a\<in>set as. fresh h \<le> a)
             \<and> ((\<forall>m\<in>set ms. m_object (modules h m) < fresh h) \<longrightarrow>
                  map (objs h') as = map (this_object h) ms
                  \<and> (\<forall>m\<in>set ms. m_object (modules h' m) \<notin> set as))))"
proof (cases "Modules (s_object (ships h this))")
  case (Entities ms)
  from Ship_toJSON_Entities [OF Entities] obtain as h3 where
    run: "Ship_toJSON this h = (Inr ((s_object (ships h this))\<lparr>Modules := Objects as\<rparr>), h3)"
    and sh: "ships h3 = ships h" and mo: "modules h3 = modules h"
    and frame: "\<forall>a<fresh h. objs h3 a = objs h a"
    and dist: "distinct as" and new: "\<forall>a\<in>set as. fresh h \<le> a \<and> a < fresh h3"
    and copies: "(\<forall>m\<in>set ms. m_object (modules h m) < fresh h) \<longrightarrow>
          map (objs h3) as = map (this_object h) ms"
    by (elim exE conjE)
  from run assms have res: "res = Inr ((s_object (ships h this))\<lparr>Modules := Objects as\<rparr>)"
    and h': "h' = h3" by simp_all
  have apart: "(\<forall>m\<in>set ms. m_object (modules h m) < fresh h) \<longrightarrow>
      (\<forall>m\<in>set ms. m_object (modules h3 m) \<notin> set as)"
  proof (intro impI ballI notI)
    fix m
    assume old: "\<forall>m\<in>set ms. m_object (modules h m) < fresh h" and m: "m \<in> set ms"
      and shared: "m_object (modules h3 m) \<in> set as"
    from new shared mo have "fresh h \<le> m_object (modules h m)" by auto
    moreover from old m have "m_object (modules h m) < fresh h" by simp
    ultimately show False by simp
  qed
  show ?thesis
    unfolding h' using Entities res sh mo frame dist new copies apart by auto
next
  case (Objects xs)
  show ?thesis
  proof (cases xs)
    case Nil
    with Objects assms have "h' = set_Modules this (Objects []) (set_Modules this (Objects []) h)"
      by (simp add: Ship_toJSON_def map_toJSON_val_def Let_def)
    with Objects Nil show ?thesis by (simp add: set_Modules_def fun_eq_iff)
  next
    case (Cons y ys)
    with Objects assms have "h' = h"
      by (simp add: Ship_toJSON_def map_toJSON_val_def Let_def)
    with Objects show ?thesis by simp
  qed
qed

text \<open>
  On the Ship of the build: the returned records are at the new addresses 9 to 12, the
  entities' records stay at 1, 3, 5 and 7.
\<close>

theorem Ship_toJSON_frame_witness:
  "Modules (s_object (ships heap1 0)) = Entities [2, 4, 6, 8]
   \<and> list_all (\<lambda>m. m_object (modules heap1 m) < fresh heap1) [2, 4, 6, 8]
   \<and> (\<exists>as h'. Ship_toJSON 0 heap1 =
         (Inr \<lparr>Ship = ''Anaconda'', ShipName = ''Normandy'', ShipIdent = ''SR-1'',
               Modules = Objects as\<rparr>, h')
       \<and> ships h' = ships heap1 \<and> modules h' = modules heap1
       \<and> list_all (\<lambda>a. 9 \<le> a) as
       \<and> map (objs h') as = [cargo_rack, shield_generator, hull_reinforcement, fuel_scoop]
       \<and> list_all (\<lambda>m. m_object (modules h' m) \<notin> set as) [2, 4, 6, 8])"
proof -
  have ent: "Modules (s_object (ships heap1 0)) = Entities [2, 4, 6, 8]"
    by (simp add: heap1_fields)
  have alloc: "\<forall>m\<in>set [2, 4, 6, 8]. m_object (modules heap1 m) < fresh heap1"
    by (simp add: heap1_fields)
  obtain res h' where run: "Ship_toJSON 0 heap1 = (res, h')"
    by (cases "Ship_toJSON 0 heap1")
  from Ship_toJSON_frame [OF run] ent alloc obtain as where
    sh: "ships h' = ships heap1" and mo: "modules h' = modules heap1"
    and res: "res = Inr ((s_object (ships heap1 0))\<lparr>Modules := Objects as\<rparr>)"
    and new: "\<forall>a\<in>set as. fresh heap1 \<le> a"
    and copies: "map (objs h') as = map (this_object heap1) [2, 4, 6, 8]"
    and apart: "\<forall>m\<in>set [2, 4, 6, 8]. m_object (modules h' m) \<notin> set as"
    by blast
  have a: "Ship_toJSON 0 heap1 =
         (Inr \<lparr>Ship = ''Anaconda'', ShipName = ''Normandy'', ShipIdent = ''SR-1'',
               Modules = Objects as\<rparr>, h')"
    using run res by (simp add: heap1_fields)
  have b: "list_all (\<lambda>a. 9 \<le> a) as"
    using new by (simp add: heap1_fields list_all_iff)
  have c: "map (objs h') as = [cargo_rack, shield_generator, hull_reinforcement, fuel_scoop]"
    using copies by (simp add: this_object_heap1)
  have d: "list_all (\<lambda>m. m_object (modules h' m) \<notin> set as) [2, 4, 6, 8]"
    using apart by simp
  have e: "list_all (\<lambda>m. m_object (modules heap1 m) < fresh heap1) [2, 4, 6, 8]"
    using alloc by simp
  show ?thesis by (intro exI conjI; fact)
qed

text \<open>
  What the separation gives: a later \<open>setSlot\<close> or \<open>set\<close> on a Module of the Ship writes
  the Module's own record only, so the records \<open>toJSON\<close> returned keep their contents.
\<close>

lemma Module_writes_own_record:
  "a \<noteq> m_object (modules h m) \<Longrightarrow> objs (snd (Module_setSlot E m s h)) a = objs h a"
  "a \<noteq> m_object (modules h m) \<Longrightarrow> objs (snd (Module_set m p v h)) a = objs h a"
  by (simp_all add: Module_setSlot_def Module_set_def split: option.split)

lemma returned_records_keep_contents:
  assumes run: "Ship_toJSON this h = (Inr r, h')"
    and ent: "Modules (s_object (ships h this)) = Entities ms"
    and alloc: "\<forall>m\<in>set ms. m_object (modules h m) < fresh h"
    and m: "m \<in> set ms"
    and r: "Modules r = Objects as"
  shows "map (objs (snd (Module_setSlot E m s h'))) as = map (objs h') as
     \<and> map (objs (snd (Module_set m p v h'))) as = map (objs h') as"
proof -
  from Ship_toJSON_Entities [OF ent] obtain bs h3 where
    run3: "Ship_toJSON this h = (Inr ((s_object (ships h this))\<lparr>Modules := Objects bs\<rparr>), h3)"
    and mo: "modules h3 = modules h"
    and new: "\<forall>a\<in>set bs. fresh h \<le> a \<and> a < fresh h3"
    by (elim exE conjE)
  from run run3 r have h': "h' = h3" and bs: "bs = as" by auto
  have apart: "\<forall>a\<in>set as. a \<noteq> m_object (modules h' m)"
  proof
    fix a
    assume "a \<in> set as"
    with new bs have "fresh h \<le> a" by simp
    moreover from alloc m have "m_object (modules h m) < fresh h" by simp
    ultimately show "a \<noteq> m_object (modules h' m)" using mo h' by simp
  qed
  then show ?thesis
    by (simp add: Module_writes_own_record)
qed

end
